theory Spec2Isabelle
  imports Main "HOL-Library.Word"
begin

section \<open>Strings and recipient numbers\<close>

text \<open>
  A JavaScript string is a sequence of code units; here it is a \<open>string\<close>, a list of
  characters. The functions below only ask of a character whether it is one of the ten
  ASCII digits (\<open>\d\<close> without the unicode flag) or one of a few ASCII delimiters, and every
  other code unit is treated alike, so the encoding of characters beyond ASCII does not
  matter.
\<close>

definition is_digit :: "char \<Rightarrow> bool" where
  "is_digit c = (c \<in> set ''0123456789'')"

text \<open>\<open>s.startsWith(p)\<close>\<close>

definition startsWith :: "string \<Rightarrow> string \<Rightarrow> bool" where
  "startsWith p s = (take (length p) s = p)"

text \<open>
  \<open>normalizePhoneNumber\<close> (tracks.ts, lines 169-181): \<open>phone.replace(/\D/g, "")\<close> deletes
  every character that is not a digit; then the two tests of the source, in its order.
\<close>

definition normalizePhoneNumber :: "string \<Rightarrow> string" where
  "normalizePhoneNumber phone =
     (let cleaned = filter is_digit phone in
      if startsWith ''91'' cleaned \<and> length cleaned = 12 then cleaned
      else if length cleaned = 10 then ''91'' @ cleaned
      else cleaned)"

text \<open>
  \<open>validateE164\<close> (lines 183-186): the regular expression \<open>/^\d{10,15}$/\<close> has no flags,
  so it matches exactly the strings made of ten to fifteen digits.
\<close>

definition validateE164 :: "string \<Rightarrow> bool" where
  "validateE164 phone =
     (10 \<le> length phone \<and> length phone \<le> 15 \<and> list_all is_digit phone)"

section \<open>Errors and the retry loop\<close>

text \<open>
  A rejection of the messaging client or of the HTTP transport is an error object. The
  retry loop reads its \<open>status\<close> and \<open>code\<close>; the handlers read \<open>message\<close> for the log.
  A field is a number or absent (\<open>None\<close>); status and error codes are whole numbers.

  \<open>retryWithBackoff\<close> can also throw the value of \<open>lastError\<close> while that variable is still
  \<open>undefined\<close> (the statement after the loop), so a thrown value is an error object or
  \<open>undefined\<close>.
\<close>

record error =
  status :: "int option"
  code :: "int option"
  message :: string

datatype thrown = Undefined | Thrown error

text \<open>
  What the loop does, in order: a call of the operation (numbered from 0) or a sleep of
  so many milliseconds.
\<close>

datatype event = Attempt nat | Sleep int

text \<open>\<open>a || b\<close> on numbers that may be absent: \<open>undefined\<close> and \<open>0\<close> are falsy.\<close>

definition js_or :: "int option \<Rightarrow> int option \<Rightarrow> int option" where
  "js_or a b = (case a of None \<Rightarrow> b | Some n \<Rightarrow> if n = 0 then b else Some n)"

text \<open>Line 204: \<open>const status = error.status || error.code\<close>.\<close>

definition status_of :: "error \<Rightarrow> int option" where
  "status_of error = js_or (status error) (code error)"

text \<open>
  Lines 208-212: \<open>status === 429 || error.code === 20003 || (status >= 500 && status < 600)\<close>.
  A comparison with \<open>undefined\<close> is false.
\<close>

definition retryable :: "error \<Rightarrow> bool" where
  "retryable error =
     (status_of error = Some 429 \<or>
      code error = Some 20003 \<or>
      (case status_of error of None \<Rightarrow> False | Some n \<Rightarrow> 500 \<le> n \<and> n < 600))"

text \<open>
  The \<open>for\<close> loop of \<open>retryWithBackoff\<close> (lines 199-227). The operation \<open>fn\<close> has effects
  and may answer differently each time it is called: \<open>fn k\<close> is the outcome of its call
  number \<open>k\<close> (from 0), \<open>Inl\<close> a rejection and \<open>Inr\<close> the value. The loop calls \<open>fn\<close> once
  per iteration, so iteration \<open>attempt\<close> sees \<open>fn attempt\<close>. The state of the loop is
  \<open>attempt\<close>, \<open>lastError\<close> and the trace of events so far. The result is the value returned
  or the value thrown.
\<close>

function retry_loop ::
  "(nat \<Rightarrow> error + 'a) \<Rightarrow> int \<Rightarrow> int \<Rightarrow> nat \<Rightarrow> thrown \<Rightarrow> event list
     \<Rightarrow> (thrown + 'a) \<times> event list" where
  "retry_loop fn maxRetries initialDelayMs attempt lastError trace =
     (if int attempt \<le> maxRetries then
        (case fn attempt of
           Inr v \<Rightarrow> (Inr v, trace @ [Attempt attempt])
         | Inl error \<Rightarrow>
             if retryable error \<and> int attempt < maxRetries then
               retry_loop fn maxRetries initialDelayMs (attempt + 1) (Thrown error)
                 (trace @ [Attempt attempt, Sleep (initialDelayMs * 2 ^ attempt)])
             else (Inl (Thrown error), trace @ [Attempt attempt]))
      else (Inl lastError, trace))"
  by pat_completeness auto
termination
  by (relation "measure (\<lambda>(fn, maxRetries, initialDelayMs, attempt, lastError, trace).
        nat (maxRetries + 1 - int attempt))") auto

declare retry_loop.simps [simp del]

definition retryWithBackoff ::
  "(nat \<Rightarrow> error + 'a) \<Rightarrow> int \<Rightarrow> int \<Rightarrow> (thrown + 'a) \<times> event list" where
  "retryWithBackoff fn maxRetries initialDelayMs =
     retry_loop fn maxRetries initialDelayMs 0 Undefined []"

text \<open>The delays and the call numbers of a trace, in order.\<close>

fun sleeps :: "event list \<Rightarrow> int list" where
  "sleeps [] = []"
| "sleeps (Sleep ms # tr) = ms # sleeps tr"
| "sleeps (Attempt k # tr) = sleeps tr"

fun attempts :: "event list \<Rightarrow> nat list" where
  "attempts [] = []"
| "attempts (Attempt k # tr) = k # attempts tr"
| "attempts (Sleep ms # tr) = attempts tr"

text \<open>The trace of the failed rounds \<open>a, \<dots>, n - 1\<close>: each a call followed by its delay.\<close>

definition rounds :: "int \<Rightarrow> nat \<Rightarrow> nat \<Rightarrow> event list" where
  "rounds d a n = concat (map (\<lambda>k. [Attempt k, Sleep (d * 2 ^ k)]) [a..<n])"

section \<open>The messaging gateway\<close>

text \<open>
  tracks.ts holds two revisions of the gateway module, one after the other. Lines 38-547
  and 671-1180 are the same text; \<open>downloadVoiceNoteMedia\<close> and \<open>downloadMediaFile\<close> differ.
  The later revision is modelled, and the earlier \<open>downloadVoiceNoteMedia\<close> (lines 548-607)
  as \<open>downloadVoiceNoteMedia_rev1\<close>.

  The process environment: a variable is unset (\<open>None\<close>) or a string.
\<close>

record env =
  TWILIO_ACCOUNT_SID :: "string option"
  TWILIO_AUTH_TOKEN :: "string option"
  TWILIO_WHATSAPP_NUMBER :: "string option"

record TwilioConfig =
  accountSid :: string
  authToken :: string
  whatsappNumber :: string

text \<open>\<open>getConfig\<close> (lines 680-693): \<open>!v\<close> holds of an unset variable and of the empty string.\<close>

definition getConfig :: "env \<Rightarrow> TwilioConfig option" where
  "getConfig e =
     (case (TWILIO_ACCOUNT_SID e, TWILIO_AUTH_TOKEN e, TWILIO_WHATSAPP_NUMBER e) of
        (Some sid, Some token, Some number) \<Rightarrow>
          if sid = [] \<or> token = [] \<or> number = [] then None
          else Some \<lparr>accountSid = sid, authToken = token, whatsappNumber = number\<rparr>
      | _ \<Rightarrow> None)"

text \<open>
  The factory \<open>twilio(accountSid, authToken)\<close> of the provider's package, which
  \<open>getTwilioClient\<close> calls. The client it makes is the pair of credentials it was made
  from; the client's network operations are parameters of the functions that use them.
  The constructor throws an \<open>Error\<close> when a credential is missing and when the account
  SID does not start with \<open>AC\<close>; for a SID that starts with \<open>SK\<close> the message goes on
  with a hint about API keys.
\<close>

record client =
  username :: string
  password :: string

definition twilio :: "string \<Rightarrow> string \<Rightarrow> error + client" where
  "twilio sid token =
     (if sid = [] then Inl \<lparr>status = None, code = None, message = ''username is required''\<rparr>
      else if token = []
        then Inl \<lparr>status = None, code = None, message = ''password is required''\<rparr>
      else if \<not> startsWith ''AC'' sid
        then Inl \<lparr>status = None, code = None,
               message = ''accountSid must start with AC'' @
                 (if startsWith ''SK'' sid
                  then ''. The given SID indicates an API Key which requires '' @
                       ''the accountSid to be passed as an additional option''
                  else [])\<rparr>
      else Inr \<lparr>username = sid, password = token\<rparr>)"

text \<open>
  \<open>getTwilioClient\<close> (lines 695-700): \<open>null\<close> without a configuration, else the client,
  or the error the constructor throws.
\<close>

definition getTwilioClient :: "env \<Rightarrow> error + client option" where
  "getTwilioClient e =
     (case getConfig e of
        None \<Rightarrow> Inr None
      | Some config \<Rightarrow>
          (case twilio (accountSid config) (authToken config) of
             Inl error \<Rightarrow> Inl error
           | Inr client \<Rightarrow> Inr (Some client)))"

record create_params =
  msg_from :: string
  msg_to :: string
  msg_body :: string

record message =
  msg_sid :: string
  msg_status :: string

text \<open>Reading a property of \<open>undefined\<close> throws a \<open>TypeError\<close>.\<close>

definition TypeError :: error where
  "TypeError = \<lparr>status = None, code = None,
     message = ''Cannot read properties of undefined''\<rparr>"

text \<open>
  \<open>sendTextMessageWithRetry\<close> (lines 957-1003). \<open>create client params k\<close> is the outcome of
  call number \<open>k\<close> of \<open>client.messages.create(params)\<close>. The result is the boolean returned
  or the value thrown to the caller, with the trace of calls and sleeps. The call of
  \<open>getTwilioClient\<close> (line 961) comes before the \<open>try\<close> (line 976), so what it throws
  goes to the caller. The catch block reads \<open>error.message\<close>, which throws when \<open>error\<close>
  is \<open>undefined\<close>.
\<close>

definition sendTextMessageWithRetry ::
  "env \<Rightarrow> (client \<Rightarrow> create_params \<Rightarrow> nat \<Rightarrow> error + message) \<Rightarrow> string \<Rightarrow> string
     \<Rightarrow> (thrown + bool) \<times> event list" where
  "sendTextMessageWithRetry e create recipientNumber messageText =
     (case getTwilioClient e of
        Inl error \<Rightarrow> (Inl (Thrown error), [])
      | Inr None \<Rightarrow> (Inr False, [])
      | Inr (Some client) \<Rightarrow>
          if \<not> validateE164 recipientNumber then (Inr False, [])
          else
            (case getConfig e of
               None \<Rightarrow> (Inr False, [])
             | Some config \<Rightarrow>
                 let fromNumber = ''whatsapp:'' @
                       (if startsWith ''+'' (whatsappNumber config)
                        then drop 1 (whatsappNumber config) else whatsappNumber config);
                     toNumber = ''whatsapp:'' @
                       (if startsWith ''+'' recipientNumber then recipientNumber
                        else ''+'' @ recipientNumber);
                     attempt = retryWithBackoff
                       (create client
                          \<lparr>msg_from = fromNumber, msg_to = toNumber, msg_body = messageText\<rparr>)
                       3 1000
                 in (case fst attempt of
                       Inr msg \<Rightarrow> (Inr True, snd attempt)
                     | Inl Undefined \<Rightarrow> (Inl (Thrown TypeError), snd attempt)
                     | Inl (Thrown error) \<Rightarrow> (Inr False, snd attempt))))"

text \<open>
  \<open>downloadMediaFile\<close> (lines 1262-1308). \<open>axios_get url user pass\<close> is the outcome of
  \<open>axios.get\<close> with basic authentication: a rejection or the bytes of the body.
\<close>

type_synonym buffer = "8 word list"

definition downloadMediaFile ::
  "env \<Rightarrow> (string \<Rightarrow> string \<Rightarrow> string \<Rightarrow> error + buffer) \<Rightarrow> string
     \<Rightarrow> thrown + buffer option" where
  "downloadMediaFile e axios_get mediaUrl =
     (case (case (TWILIO_ACCOUNT_SID e, TWILIO_AUTH_TOKEN e) of
              (Some sid, Some token) \<Rightarrow>
                if sid = [] \<or> token = [] then Inr None
                else (case axios_get mediaUrl sid token of
                        Inl error \<Rightarrow> Inl (Thrown error)
                      | Inr data \<Rightarrow> Inr (Some data))
            | _ \<Rightarrow> Inr None) of
        Inr result \<Rightarrow> Inr result
      | Inl Undefined \<Rightarrow> Inl (Thrown TypeError)
      | Inl (Thrown error) \<Rightarrow> Inr None)"

text \<open>
  A JavaScript number that a decimal numeral can denote: \<open>NaN\<close>, an infinity, or a whole
  number that is a double (\<open>Num 0\<close> stands for both zeros).
\<close>

datatype number = NaN | Num int | PosInfinity | NegInfinity

text \<open>
  The double nearest to a whole number that is not negative, ties to the even
  significand of 53 bits; \<open>None\<close> when the rounded value is beyond the largest double.
\<close>

function bit_length :: "int \<Rightarrow> nat" where
  "bit_length n = (if n \<le> 0 then 0 else Suc (bit_length (n div 2)))"
  by pat_completeness auto
termination
  by (relation "measure nat") auto

declare bit_length.simps [simp del]

definition to_double :: "int \<Rightarrow> int option" where
  "to_double n =
     (if bit_length n \<le> 53 then Some n
      else
        (let e = bit_length n - 53;
             q = n div 2 ^ e;
             r = n mod 2 ^ e;
             q' = (if 2 ^ e < 2 * r \<or> (2 * r = 2 ^ e \<and> odd q) then q + 1 else q)
         in if 2 ^ 1024 \<le> q' * 2 ^ e then None else Some (q' * 2 ^ e)))"

text \<open>
  \<open>parseInt(s, 10)\<close> on ASCII input: leading white space, an optional sign, then the
  longest run of digits; \<open>NaN\<close> when there is no digit, else the double nearest to the
  number the digits denote. (The language lets an implementation replace the digits after
  the twentieth by zeros; the digits are kept here.)
\<close>

definition is_space :: "char \<Rightarrow> bool" where
  "is_space c = (c \<in> set [CHR 0x09, CHR 0x0A, CHR 0x0B, CHR 0x0C, CHR 0x0D, CHR 0x20])"

definition digit_value :: "char \<Rightarrow> int" where
  "digit_value c = int (of_char c) - 48"

definition parseInt :: "string \<Rightarrow> number" where
  "parseInt s =
     (let t = dropWhile is_space s;
          negative = startsWith ''-'' t;
          u = (if startsWith ''-'' t \<or> startsWith ''+'' t then drop 1 t else t);
          ds = takeWhile is_digit u
      in if ds = [] then NaN
         else
           (case to_double (foldl (\<lambda>a c. a * 10 + digit_value c) 0 ds) of
              None \<Rightarrow> if negative then NegInfinity else PosInfinity
            | Some v \<Rightarrow> Num (if negative then - v else v)))"

text \<open>
  The capture group of \<open>mediaUrl.match(/\/Media\/([^\/\?]+)/)\<close>: the leftmost place where
  \<open>/Media/\<close> is followed by at least one character other than \<open>/\<close> and \<open>?\<close>, and the
  longest such run there.
\<close>

fun matchMediaSid :: "string \<Rightarrow> string option" where
  "matchMediaSid [] = None"
| "matchMediaSid (c # cs) =
     (let run = takeWhile (\<lambda>x. x \<noteq> CHR ''/'' \<and> x \<noteq> CHR ''?'') (drop 7 (c # cs)) in
      if startsWith ''/Media/'' (c # cs) \<and> run \<noteq> [] then Some run
      else matchMediaSid cs)"

text \<open>
  The capture group of \<open>mediaUrl.match(/\/Messages\/([^\/]+)\//)\<close>: the run of characters
  other than \<open>/\<close> after \<open>/Messages/\<close> must not be empty and must be followed by \<open>/\<close>.
\<close>

fun matchMessageSid :: "string \<Rightarrow> string option" where
  "matchMessageSid [] = None"
| "matchMessageSid (c # cs) =
     (let run = takeWhile (\<lambda>x. x \<noteq> CHR ''/'') (drop 10 (c # cs)) in
      if startsWith ''/Messages/'' (c # cs) \<and> run \<noteq> [] \<and>
         startsWith ''/'' (dropWhile (\<lambda>x. x \<noteq> CHR ''/'') (drop 10 (c # cs)))
      then Some run
      else matchMessageSid cs)"

text \<open>The earlier revision (line 566) matches \<open>/\/Media\/([^\/]+)/\<close>.\<close>

fun matchMediaSid_rev1 :: "string \<Rightarrow> string option" where
  "matchMediaSid_rev1 [] = None"
| "matchMediaSid_rev1 (c # cs) =
     (let run = takeWhile (\<lambda>x. x \<noteq> CHR ''/'') (drop 7 (c # cs)) in
      if startsWith ''/Media/'' (c # cs) \<and> run \<noteq> [] then Some run
      else matchMediaSid_rev1 cs)"

text \<open>\<open>s.replace(p, r)\<close> with a string pattern replaces the first occurrence.\<close>

fun replace_first :: "string \<Rightarrow> string \<Rightarrow> string \<Rightarrow> string" where
  "replace_first p r [] = (if p = [] then r else [])"
| "replace_first p r (c # cs) =
     (if startsWith p (c # cs) then r @ drop (length p) (c # cs)
      else c # replace_first p r cs)"

text \<open>The media resource fetched from the provider, and the result of the function.\<close>

record media =
  contentType :: "string option"
  contentLength :: "string option"
  uri :: string

record media_info =
  url :: string
  mimeType :: string
  sha256 :: string
  fileSize :: number

text \<open>\<open>v || d\<close> on a string that may be absent.\<close>

definition or_default :: "string option \<Rightarrow> string \<Rightarrow> string" where
  "or_default v d = (case v of None \<Rightarrow> d | Some s \<Rightarrow> if s = [] then d else s)"

text \<open>
  \<open>downloadVoiceNoteMedia\<close> (lines 1181-1260). \<open>fetch client messageSid mediaSid\<close> is the
  outcome of \<open>client.messages(messageSid).media(mediaSid).fetch()\<close>. The inner case is
  the body of the outer \<open>try\<close>, the outer case its \<open>catch\<close>; the inner \<open>try\<close> around the
  fetch has its own \<open>catch\<close>, so the outer one sees what \<open>getTwilioClient\<close> throws.
\<close>

definition downloadVoiceNoteMedia ::
  "env \<Rightarrow> (client \<Rightarrow> string \<Rightarrow> string \<Rightarrow> error + media) \<Rightarrow> string
     \<Rightarrow> thrown + media_info option" where
  "downloadVoiceNoteMedia e fetch mediaUrl =
     (case (case getConfig e of
              None \<Rightarrow> Inr None
            | Some config \<Rightarrow>
                (case getTwilioClient e of
                   Inl error \<Rightarrow> Inl (Thrown error)
                 | Inr None \<Rightarrow> Inr None
                 | Inr (Some client) \<Rightarrow>
                     (case (matchMediaSid mediaUrl, matchMessageSid mediaUrl) of
                        (Some mediaSid, Some messageSid) \<Rightarrow>
                          (case fetch client messageSid mediaSid of
                             Inr media \<Rightarrow>
                               Inr (Some \<lparr>url = mediaUrl,
                                  mimeType = or_default (contentType media) ''audio/ogg'',
                                  sha256 = '''',
                                  fileSize = parseInt (or_default (contentLength media) ''0'')\<rparr>)
                           | Inl fetchError \<Rightarrow>
                               Inr (Some \<lparr>url = mediaUrl, mimeType = ''audio/ogg'',
                                  sha256 = '''', fileSize = Num 0\<rparr>))
                      | _ \<Rightarrow>
                          Inr (Some \<lparr>url = mediaUrl, mimeType = ''audio/ogg'',
                             sha256 = '''', fileSize = Num 0\<rparr>)))) of
        Inr result \<Rightarrow> Inr result
      | Inl Undefined \<Rightarrow> Inl (Thrown TypeError)
      | Inl (Thrown error) \<Rightarrow>
          Inr (Some \<lparr>url = mediaUrl, mimeType = ''audio/ogg'', sha256 = '''',
             fileSize = Num 0\<rparr>))"

text \<open>
  The earlier revision (lines 548-607): one \<open>try\<close>, the fetch is
  \<open>client.messages(mediaSid).media(mediaSid).fetch()\<close>, and the URL returned on success is
  \<open>media.uri.replace(".json", "")\<close>.
\<close>

definition downloadVoiceNoteMedia_rev1 ::
  "env \<Rightarrow> (client \<Rightarrow> string \<Rightarrow> string \<Rightarrow> error + media) \<Rightarrow> string
     \<Rightarrow> thrown + media_info option" where
  "downloadVoiceNoteMedia_rev1 e fetch mediaUrl =
     (case (case getConfig e of
              None \<Rightarrow> Inr None
            | Some config \<Rightarrow>
                (case getTwilioClient e of
                   Inl error \<Rightarrow> Inl (Thrown error)
                 | Inr None \<Rightarrow> Inr None
                 | Inr (Some client) \<Rightarrow>
                     (case matchMediaSid_rev1 mediaUrl of
                        None \<Rightarrow>
                          Inr (Some \<lparr>url = mediaUrl, mimeType = ''audio/ogg'',
                             sha256 = '''', fileSize = Num 0\<rparr>)
                      | Some mediaSid \<Rightarrow>
                          (case fetch client mediaSid mediaSid of
                             Inl error \<Rightarrow> Inl (Thrown error)
                           | Inr media \<Rightarrow>
                               Inr (Some \<lparr>url = replace_first ''.json'' '''' (uri media),
                                  mimeType = or_default (contentType media) ''audio/ogg'',
                                  sha256 = '''',
                                  fileSize = parseInt (or_default (contentLength media) ''0'')\<rparr>))))) of
        Inr result \<Rightarrow> Inr result
      | Inl Undefined \<Rightarrow> Inl (Thrown TypeError)
      | Inl (Thrown error) \<Rightarrow>
          Inr (Some \<lparr>url = mediaUrl, mimeType = ''audio/ogg'', sha256 = '''',
             fileSize = Num 0\<rparr>))"

section \<open>The persisted schema\<close>

text \<open>
  The migration (part_000) declares two tables. A row is a record with one field per
  column, named as the column (the two \<open>id\<close> columns are \<open>ft_id\<close> and \<open>vn_id\<close>): a column
  declared \<open>NOT NULL\<close> has its value, any other column an optional one. A timestamp is a
  number of microseconds.
\<close>

type_synonym timestamptz = int

record free_trial =
  ft_id :: string
  customer_phone :: string
  buyer_name :: string
  storyteller_name :: string
  selected_album :: string
  storyteller_phone :: "string option"
  conversation_state :: string
  current_question_index :: int
  retry_readiness_at :: "timestamptz option"
  retry_count :: int
  last_readiness_response :: "string option"
  welcome_sent_at :: "timestamptz option"
  readiness_asked_at :: "timestamptz option"
  last_question_sent_at :: "timestamptz option"
  reminder_sent_at :: "timestamptz option"
  next_question_scheduled_for :: "timestamptz option"
  created_at :: timestamptz

record voice_note =
  vn_id :: string
  free_trial_id :: string
  question_index :: int
  question_text :: string
  media_id :: string
  media_url :: "string option"
  local_file_path :: "string option"
  mime_type :: "string option"
  media_sha256 :: "string option"
  download_status :: string
  size_bytes :: "int option"
  received_at :: timestamptz

text \<open>
  The values of an \<open>INSERT\<close> or of the \<open>SET\<close> list of an \<open>UPDATE\<close>: for each column a
  value, or \<open>None\<close> when the statement does not mention the column.
\<close>

record free_trial_values =
  set_ft_id :: "string option"
  set_customer_phone :: "string option"
  set_buyer_name :: "string option"
  set_storyteller_name :: "string option"
  set_selected_album :: "string option"
  set_storyteller_phone :: "string option"
  set_conversation_state :: "string option"
  set_current_question_index :: "int option"
  set_retry_readiness_at :: "timestamptz option"
  set_retry_count :: "int option"
  set_last_readiness_response :: "string option"
  set_welcome_sent_at :: "timestamptz option"
  set_readiness_asked_at :: "timestamptz option"
  set_last_question_sent_at :: "timestamptz option"
  set_reminder_sent_at :: "timestamptz option"
  set_next_question_scheduled_for :: "timestamptz option"
  set_created_at :: "timestamptz option"

record voice_note_values =
  set_vn_id :: "string option"
  set_free_trial_id :: "string option"
  set_question_index :: "int option"
  set_question_text :: "string option"
  set_media_id :: "string option"
  set_media_url :: "string option"
  set_local_file_path :: "string option"
  set_mime_type :: "string option"
  set_media_sha256 :: "string option"
  set_download_status :: "string option"
  set_size_bytes :: "int option"
  set_received_at :: "timestamptz option"

record db =
  free_trials :: "free_trial list"
  voice_notes :: "voice_note list"

text \<open>A statement that breaks a declaration of the schema is rejected with an error.\<close>

datatype db_error =
    NotNullViolation string
  | UniqueViolation string
  | ForeignKeyViolation string
  | StringDataRightTruncation
  | NumericValueOutOfRange

definition and_then :: "'e + 'a \<Rightarrow> ('a \<Rightarrow> 'e + 'b) \<Rightarrow> 'e + 'b" where
  "and_then m f = (case m of Inl e \<Rightarrow> Inl e | Inr a \<Rightarrow> f a)"

text \<open>
  Column types. \<open>varchar(n)\<close> rejects a longer string unless the excess is all spaces,
  which it cuts off; \<open>integer\<close> is a 32-bit signed number.
\<close>

definition varchar :: "nat \<Rightarrow> string \<Rightarrow> db_error + string" where
  "varchar n s =
     (if length s \<le> n then Inr s
      else if list_all (\<lambda>c. c = CHR '' '') (drop n s) then Inr (take n s)
      else Inl StringDataRightTruncation)"

definition integer_col :: "int \<Rightarrow> db_error + int" where
  "integer_col i =
     (if - 2147483648 \<le> i \<and> i \<le> 2147483647 then Inr i else Inl NumericValueOutOfRange)"

text \<open>
  The three kinds of column on insertion. \<open>NOT NULL\<close> without a default: a value is
  required. Nullable without a default: an absent value is \<open>NULL\<close>. \<open>DEFAULT d NOT NULL\<close>:
  an absent value is \<open>d\<close>.
\<close>

definition not_null :: "string \<Rightarrow> 'a option \<Rightarrow> ('a \<Rightarrow> db_error + 'b) \<Rightarrow> db_error + 'b" where
  "not_null column v typ =
     (case v of None \<Rightarrow> Inl (NotNullViolation column) | Some x \<Rightarrow> typ x)"

definition nullable :: "'a option \<Rightarrow> ('a \<Rightarrow> db_error + 'b) \<Rightarrow> db_error + 'b option" where
  "nullable v typ =
     (case v of None \<Rightarrow> Inr None | Some x \<Rightarrow> and_then (typ x) (\<lambda>y. Inr (Some y)))"

definition default_to :: "'b \<Rightarrow> 'a option \<Rightarrow> ('a \<Rightarrow> db_error + 'b) \<Rightarrow> db_error + 'b" where
  "default_to d v typ = (case v of None \<Rightarrow> Inr d | Some x \<Rightarrow> typ x)"

text \<open>
  The row that an \<open>INSERT\<close> into \<open>free_trials\<close> makes at time \<open>now\<close>, column by column as
  \<open>CREATE TABLE "free_trials"\<close> declares them.
\<close>

definition free_trials_row :: "timestamptz \<Rightarrow> free_trial_values \<Rightarrow> db_error + free_trial" where
  "free_trials_row now v =
     and_then (not_null ''id'' (set_ft_id v) Inr) (\<lambda>c1.
     and_then (not_null ''customer_phone'' (set_customer_phone v) (varchar 20)) (\<lambda>c2.
     and_then (not_null ''buyer_name'' (set_buyer_name v) (varchar 255)) (\<lambda>c3.
     and_then (not_null ''storyteller_name'' (set_storyteller_name v) (varchar 255)) (\<lambda>c4.
     and_then (not_null ''selected_album'' (set_selected_album v) (varchar 255)) (\<lambda>c5.
     and_then (nullable (set_storyteller_phone v) (varchar 20)) (\<lambda>c6.
     and_then (default_to ''awaiting_initial_contact'' (set_conversation_state v) (varchar 50)) (\<lambda>c7.
     and_then (default_to 0 (set_current_question_index v) integer_col) (\<lambda>c8.
     and_then (nullable (set_retry_readiness_at v) Inr) (\<lambda>c9.
     and_then (default_to 0 (set_retry_count v) integer_col) (\<lambda>c10.
     and_then (nullable (set_last_readiness_response v) (varchar 50)) (\<lambda>c11.
     and_then (nullable (set_welcome_sent_at v) Inr) (\<lambda>c12.
     and_then (nullable (set_readiness_asked_at v) Inr) (\<lambda>c13.
     and_then (nullable (set_last_question_sent_at v) Inr) (\<lambda>c14.
     and_then (nullable (set_reminder_sent_at v) Inr) (\<lambda>c15.
     and_then (nullable (set_next_question_scheduled_for v) Inr) (\<lambda>c16.
     and_then (default_to now (set_created_at v) Inr) (\<lambda>c17.
     Inr \<lparr>ft_id = c1, customer_phone = c2, buyer_name = c3, storyteller_name = c4,
          selected_album = c5, storyteller_phone = c6, conversation_state = c7,
          current_question_index = c8, retry_readiness_at = c9, retry_count = c10,
          last_readiness_response = c11, welcome_sent_at = c12, readiness_asked_at = c13,
          last_question_sent_at = c14, reminder_sent_at = c15,
          next_question_scheduled_for = c16, created_at = c17\<rparr>)))))))))))))))))"

text \<open>The same for \<open>CREATE TABLE "voice_notes"\<close>.\<close>

definition voice_notes_row :: "timestamptz \<Rightarrow> voice_note_values \<Rightarrow> db_error + voice_note" where
  "voice_notes_row now v =
     and_then (not_null ''id'' (set_vn_id v) Inr) (\<lambda>c1.
     and_then (not_null ''free_trial_id'' (set_free_trial_id v) (varchar 255)) (\<lambda>c2.
     and_then (not_null ''question_index'' (set_question_index v) integer_col) (\<lambda>c3.
     and_then (not_null ''question_text'' (set_question_text v) Inr) (\<lambda>c4.
     and_then (not_null ''media_id'' (set_media_id v) (varchar 255)) (\<lambda>c5.
     and_then (nullable (set_media_url v) Inr) (\<lambda>c6.
     and_then (nullable (set_local_file_path v) Inr) (\<lambda>c7.
     and_then (nullable (set_mime_type v) (varchar 100)) (\<lambda>c8.
     and_then (nullable (set_media_sha256 v) (varchar 64)) (\<lambda>c9.
     and_then (default_to ''pending'' (set_download_status v) (varchar 20)) (\<lambda>c10.
     and_then (nullable (set_size_bytes v) integer_col) (\<lambda>c11.
     and_then (default_to now (set_received_at v) Inr) (\<lambda>c12.
     Inr \<lparr>vn_id = c1, free_trial_id = c2, question_index = c3, question_text = c4,
          media_id = c5, media_url = c6, local_file_path = c7, mime_type = c8,
          media_sha256 = c9, download_status = c10, size_bytes = c11,
          received_at = c12\<rparr>))))))))))))"

text \<open>
  Insertion. \<open>free_trials\<close> has its primary key. \<open>voice_notes\<close> has its primary key, the
  unique index \<open>voice_notes_trial_question_idx\<close> on \<open>(free_trial_id, question_index)\<close> and
  the foreign key to \<open>free_trials(id)\<close>. A rejected statement leaves the store as it was:
  the result is the error and no new store.
\<close>

definition insert_free_trial :: "timestamptz \<Rightarrow> db \<Rightarrow> free_trial_values \<Rightarrow> db_error + db" where
  "insert_free_trial now d v =
     and_then (free_trials_row now v) (\<lambda>row.
       if ft_id row \<in> set (map ft_id (free_trials d))
         then Inl (UniqueViolation ''free_trials_pkey'')
       else Inr (d\<lparr>free_trials := free_trials d @ [row]\<rparr>))"

definition insert_voice_note :: "timestamptz \<Rightarrow> db \<Rightarrow> voice_note_values \<Rightarrow> db_error + db" where
  "insert_voice_note now d v =
     and_then (voice_notes_row now v) (\<lambda>row.
       if vn_id row \<in> set (map vn_id (voice_notes d))
         then Inl (UniqueViolation ''voice_notes_pkey'')
       else if (free_trial_id row, question_index row)
                 \<in> set (map (\<lambda>r. (free_trial_id r, question_index r)) (voice_notes d))
         then Inl (UniqueViolation ''voice_notes_trial_question_idx'')
       else if free_trial_id row \<notin> set (map ft_id (free_trials d))
         then Inl (ForeignKeyViolation ''voice_notes_free_trial_id_free_trials_id_fk'')
       else Inr (d\<lparr>voice_notes := voice_notes d @ [row]\<rparr>))"

text \<open>Deletion; the foreign key is \<open>ON DELETE cascade\<close>.\<close>

definition delete_free_trial :: "db \<Rightarrow> string \<Rightarrow> db" where
  "delete_free_trial d i =
     \<lparr>free_trials = filter (\<lambda>r. ft_id r \<noteq> i) (free_trials d),
      voice_notes = filter (\<lambda>r. free_trial_id r \<noteq> i) (voice_notes d)\<rparr>"

definition delete_voice_note :: "db \<Rightarrow> string \<Rightarrow> db" where
  "delete_voice_note d i = d\<lparr>voice_notes := filter (\<lambda>r. vn_id r \<noteq> i) (voice_notes d)\<rparr>"

text \<open>
  \<open>UPDATE voice_notes SET \<dots> WHERE id = i\<close>: the columns mentioned get their new values,
  and the new row must keep the primary key, the unique index and the foreign key.
\<close>

definition voice_notes_set :: "voice_note \<Rightarrow> voice_note_values \<Rightarrow> db_error + voice_note" where
  "voice_notes_set r v =
     and_then (default_to (vn_id r) (set_vn_id v) Inr) (\<lambda>c1.
     and_then (default_to (free_trial_id r) (set_free_trial_id v) (varchar 255)) (\<lambda>c2.
     and_then (default_to (question_index r) (set_question_index v) integer_col) (\<lambda>c3.
     and_then (default_to (question_text r) (set_question_text v) Inr) (\<lambda>c4.
     and_then (default_to (media_id r) (set_media_id v) (varchar 255)) (\<lambda>c5.
     and_then (default_to (media_url r) (set_media_url v) (\<lambda>x. Inr (Some x))) (\<lambda>c6.
     and_then (default_to (local_file_path r) (set_local_file_path v) (\<lambda>x. Inr (Some x))) (\<lambda>c7.
     and_then (default_to (mime_type r) (set_mime_type v)
                 (\<lambda>x. nullable (Some x) (varchar 100))) (\<lambda>c8.
     and_then (default_to (media_sha256 r) (set_media_sha256 v)
                 (\<lambda>x. nullable (Some x) (varchar 64))) (\<lambda>c9.
     and_then (default_to (download_status r) (set_download_status v) (varchar 20)) (\<lambda>c10.
     and_then (default_to (size_bytes r) (set_size_bytes v)
                 (\<lambda>x. nullable (Some x) integer_col)) (\<lambda>c11.
     and_then (default_to (received_at r) (set_received_at v) Inr) (\<lambda>c12.
     Inr \<lparr>vn_id = c1, free_trial_id = c2, question_index = c3, question_text = c4,
          media_id = c5, media_url = c6, local_file_path = c7, mime_type = c8,
          media_sha256 = c9, download_status = c10, size_bytes = c11,
          received_at = c12\<rparr>))))))))))))"

definition update_voice_note :: "db \<Rightarrow> string \<Rightarrow> voice_note_values \<Rightarrow> db_error + db" where
  "update_voice_note d i v =
     (case filter (\<lambda>r. vn_id r = i) (voice_notes d) of
        [] \<Rightarrow> Inr d
      | old # _ \<Rightarrow>
          and_then (voice_notes_set old v) (\<lambda>row.
            let others = filter (\<lambda>r. vn_id r \<noteq> i) (voice_notes d) in
            if vn_id row \<in> set (map vn_id others)
              then Inl (UniqueViolation ''voice_notes_pkey'')
            else if (free_trial_id row, question_index row)
                      \<in> set (map (\<lambda>r. (free_trial_id r, question_index r)) others)
              then Inl (UniqueViolation ''voice_notes_trial_question_idx'')
            else if free_trial_id row \<notin> set (map ft_id (free_trials d))
              then Inl (ForeignKeyViolation ''voice_notes_free_trial_id_free_trials_id_fk'')
            else Inr (d\<lparr>voice_notes :=
                          map (\<lambda>r. if vn_id r = i then row else r) (voice_notes d)\<rparr>)))"

text \<open>
  The stores that the statements above can build from the empty store.
\<close>

definition empty_db :: db where
  "empty_db = \<lparr>free_trials = [], voice_notes = []\<rparr>"

inductive reachable :: "db \<Rightarrow> bool" where
  at_start: "reachable empty_db"
| ins_trial: "reachable d \<Longrightarrow> insert_free_trial now d v = Inr d' \<Longrightarrow> reachable d'"
| ins_note: "reachable d \<Longrightarrow> insert_voice_note now d v = Inr d' \<Longrightarrow> reachable d'"
| del_trial: "reachable d \<Longrightarrow> reachable (delete_free_trial d i)"
| del_note: "reachable d \<Longrightarrow> reachable (delete_voice_note d i)"
| upd_note: "reachable d \<Longrightarrow> update_voice_note d i v = Inr d' \<Longrightarrow> reachable d'"

text \<open>The two uniqueness declarations of \<open>voice_notes\<close>, as a property of a store.\<close>

definition voice_notes_unique :: "db \<Rightarrow> bool" where
  "voice_notes_unique d =
     (distinct (map vn_id (voice_notes d)) \<and>
      distinct (map (\<lambda>r. (free_trial_id r, question_index r)) (voice_notes d)))"

section \<open>Example inputs\<close>

definition env_demo :: env where
  "env_demo = \<lparr>TWILIO_ACCOUNT_SID = Some ''AC1'', TWILIO_AUTH_TOKEN = Some ''secret'',
     TWILIO_WHATSAPP_NUMBER = Some ''+14155238886''\<rparr>"

definition env_rejected_sid :: env where
  "env_rejected_sid = \<lparr>TWILIO_ACCOUNT_SID = Some ''XX1'', TWILIO_AUTH_TOKEN = Some ''secret'',
     TWILIO_WHATSAPP_NUMBER = Some ''+14155238886''\<rparr>"

definition url_demo :: string where
  "url_demo = ''https://api.twilio.com/2010-04-01/Accounts/AC1/Messages/MM2/Media/ME3''"

definition unavailable :: error where
  "unavailable = \<lparr>status = Some 503, code = None, message = ''Service Unavailable''\<rparr>"

definition invalid_to :: error where
  "invalid_to = \<lparr>status = Some 400, code = Some 21211, message = ''Invalid To number''\<rparr>"

definition fn_unavailable :: "nat \<Rightarrow> error + message" where
  "fn_unavailable k = Inl unavailable"

definition fn_then_invalid :: "nat \<Rightarrow> error + message" where
  "fn_then_invalid k = (if k < 2 then Inl unavailable else Inl invalid_to)"

definition create_unavailable :: "client \<Rightarrow> create_params \<Rightarrow> nat \<Rightarrow> error + message" where
  "create_unavailable c p k = Inl unavailable"

definition fetch_ok :: "client \<Rightarrow> string \<Rightarrow> string \<Rightarrow> error + media" where
  "fetch_ok c ms md = Inr \<lparr>contentType = Some ''audio/ogg'', contentLength = Some ''5120'',
     uri = ''/2010-04-01/Accounts/AC1/Messages/MM2/Media/ME3.json''\<rparr>"

definition fetch_not_found :: "client \<Rightarrow> string \<Rightarrow> string \<Rightarrow> error + media" where
  "fetch_not_found c ms md =
     Inl \<lparr>status = Some 404, code = Some 20404, message = ''not found''\<rparr>"

definition trial_demo :: free_trial_values where
  "trial_demo = \<lparr>set_ft_id = Some ''trial-1'', set_customer_phone = Some ''919876543210'',
     set_buyer_name = Some ''Ritesh'', set_storyteller_name = Some ''Asha'',
     set_selected_album = Some ''Memories of Home'', set_storyteller_phone = None,
     set_conversation_state = None, set_current_question_index = None,
     set_retry_readiness_at = None, set_retry_count = None,
     set_last_readiness_response = None, set_welcome_sent_at = None,
     set_readiness_asked_at = None, set_last_question_sent_at = None,
     set_reminder_sent_at = None, set_next_question_scheduled_for = None,
     set_created_at = None\<rparr>"

definition note_demo :: voice_note_values where
  "note_demo = \<lparr>set_vn_id = Some ''note-1'', set_free_trial_id = Some ''trial-1'',
     set_question_index = Some 0, set_question_text = Some ''First day of school?'',
     set_media_id = Some ''ME3'', set_media_url = None, set_local_file_path = None,
     set_mime_type = None, set_media_sha256 = None, set_download_status = None,
     set_size_bytes = None, set_received_at = None\<rparr>"

definition db_one_trial :: db where
  "db_one_trial = projr (insert_free_trial 100 empty_db trial_demo)"

definition db_demo :: db where
  "db_demo = projr (insert_voice_note 200 db_one_trial note_demo)"

section \<open>Recipient numbers\<close>

text \<open>
  C6. For every input string, \<open>normalizePhoneNumber\<close> returns a string of digits only:
  with \<open>d\<close> the input stripped of every character that is not a digit, the result is
  \<open>91\<close> followed by \<open>d\<close> when \<open>d\<close> has exactly 10 digits, \<open>d\<close> itself when \<open>d\<close> has
  exactly 12 digits and starts with \<open>91\<close>, and \<open>d\<close> itself in every other case.
\<close>

theorem normalizePhoneNumber_spec:
  "list_all (\<lambda>c. c \<in> set ''0123456789'') (normalizePhoneNumber s) \<and>
   (length (filter (\<lambda>c. c \<in> set ''0123456789'') s) = 10 \<longrightarrow>
      normalizePhoneNumber s = ''91'' @ filter (\<lambda>c. c \<in> set ''0123456789'') s) \<and>
   (length (filter (\<lambda>c. c \<in> set ''0123456789'') s) = 12 \<and>
      take 2 (filter (\<lambda>c. c \<in> set ''0123456789'') s) = ''91'' \<longrightarrow>
      normalizePhoneNumber s = filter (\<lambda>c. c \<in> set ''0123456789'') s) \<and>
   (length (filter (\<lambda>c. c \<in> set ''0123456789'') s) \<noteq> 10 \<longrightarrow>
      normalizePhoneNumber s = filter (\<lambda>c. c \<in> set ''0123456789'') s)"
proof -
  have dig: "is_digit = (\<lambda>c. c \<in> set ''0123456789'')"
    by (rule ext) (simp add: is_digit_def)
  define d where "d = filter is_digit s"
  have all_d: "list_all is_digit d"
    by (simp add: d_def list_all_iff)
  have all_91: "list_all is_digit (''91'' @ d)"
    using all_d by (simp add: is_digit_def)
  have res: "normalizePhoneNumber s =
      (if startsWith ''91'' d \<and> length d = 12 then d
       else if length d = 10 then ''91'' @ d else d)"
    by (simp add: normalizePhoneNumber_def d_def Let_def)
  have c1: "list_all is_digit (normalizePhoneNumber s)"
    using all_d all_91 by (simp add: res)
  have c2: "length d = 10 \<longrightarrow> normalizePhoneNumber s = ''91'' @ d"
    by (simp add: res)
  have c3: "length d = 12 \<and> take 2 d = ''91'' \<longrightarrow> normalizePhoneNumber s = d"
    by (simp add: res)
  have c4: "length d \<noteq> 10 \<longrightarrow> normalizePhoneNumber s = d"
    by (simp add: res)
  from c1 c2 c3 c4 show ?thesis
    unfolding d_def dig by blast
qed

theorem normalizePhoneNumber_spec_witness:
  "normalizePhoneNumber ''+91 98765-43210'' = ''919876543210'' \<and>
   normalizePhoneNumber ''98765 43210'' = ''919876543210'' \<and>
   normalizePhoneNumber ''(555) 12'' = ''55512''"
  using normalizePhoneNumber_spec [of "''+91 98765-43210''"]
        normalizePhoneNumber_spec [of "''98765 43210''"]
        normalizePhoneNumber_spec [of "''(555) 12''"]
  by simp

text \<open>
  C9. \<open>normalizePhoneNumber\<close> is idempotent: normalising a normalised number changes
  nothing.
\<close>

theorem normalizePhoneNumber_idempotent:
  "normalizePhoneNumber (normalizePhoneNumber s) = normalizePhoneNumber s"
proof -
  define d where "d = filter is_digit s"
  have fd: "filter is_digit d = d"
    by (simp add: d_def)
  have f91: "filter is_digit (''91'' @ d) = ''91'' @ d"
    using fd by (simp add: is_digit_def)
  have res: "normalizePhoneNumber s =
      (if startsWith ''91'' d \<and> length d = 12 then d
       else if length d = 10 then ''91'' @ d else d)"
    by (simp add: normalizePhoneNumber_def d_def Let_def)
  show ?thesis
  proof (cases "startsWith ''91'' d \<and> length d = 12")
    case True
    then have "normalizePhoneNumber s = d" by (simp add: res)
    moreover have "normalizePhoneNumber d = d"
      using True fd by (simp add: normalizePhoneNumber_def Let_def)
    ultimately show ?thesis by simp
  next
    case False
    show ?thesis
    proof (cases "length d = 10")
      case True
      then have r: "normalizePhoneNumber s = ''91'' @ d"
        using False by (simp add: res)
      have "normalizePhoneNumber (''91'' @ d) = ''91'' @ d"
        using True f91 by (simp add: normalizePhoneNumber_def Let_def startsWith_def)
      with r show ?thesis by simp
    next
      case ne10: False
      then have r: "normalizePhoneNumber s = d"
        using False by (simp add: res)
      have "normalizePhoneNumber d = d"
        using False ne10 fd by (simp add: normalizePhoneNumber_def Let_def)
      with r show ?thesis by simp
    qed
  qed
qed

theorem normalizePhoneNumber_idempotent_witness:
  "normalizePhoneNumber (normalizePhoneNumber ''98765 43210'') = ''919876543210''"
proof -
  have "normalizePhoneNumber ''98765 43210'' = ''919876543210''"
    by (simp add: normalizePhoneNumber_def is_digit_def startsWith_def)
  with normalizePhoneNumber_idempotent [of "''98765 43210''"] show ?thesis
    by simp
qed

lemma validateE164_iff:
  "validateE164 r \<longleftrightarrow>
     (10 \<le> length r \<and> length r \<le> 15 \<and> (\<forall>c \<in> set r. c \<in> set ''0123456789''))"
  by (simp add: validateE164_def list_all_iff is_digit_def)

section \<open>The retry loop\<close>

lemma rounds_snoc:
  "a \<le> n \<Longrightarrow> rounds d a (Suc n) = rounds d a n @ [Attempt n, Sleep (d * 2 ^ n)]"
  by (simp add: rounds_def)

lemma rounds_step:
  "a < n \<Longrightarrow> rounds d a n = [Attempt a, Sleep (d * 2 ^ a)] @ rounds d (Suc a) n"
  by (simp add: rounds_def upt_conv_Cons)

lemma retryable_iff:
  "retryable e \<longleftrightarrow>
     (status_of e = Some 429 \<or> code e = Some 20003 \<or>
      (\<exists>n. status_of e = Some n \<and> 500 \<le> n \<and> n < 600))"
  by (auto simp add: retryable_def split: option.splits)

lemma sleeps_append: "sleeps (xs @ ys) = sleeps xs @ sleeps ys"
  by (induction xs rule: sleeps.induct) simp_all

lemma attempts_append: "attempts (xs @ ys) = attempts xs @ attempts ys"
  by (induction xs rule: attempts.induct) simp_all

lemma sleeps_rounds: "sleeps (rounds d a n) = map (\<lambda>k. d * 2 ^ k) [a..<n]"
proof (induction n)
  case 0
  show ?case by (simp add: rounds_def)
next
  case (Suc n)
  show ?case
  proof (cases "a \<le> n")
    case True
    with Suc show ?thesis by (simp add: rounds_snoc sleeps_append)
  next
    case False
    then show ?thesis by (simp add: rounds_def)
  qed
qed

lemma attempts_rounds: "attempts (rounds d a n) = [a..<n]"
proof (induction n)
  case 0
  show ?case by (simp add: rounds_def)
next
  case (Suc n)
  show ?case
  proof (cases "a \<le> n")
    case True
    with Suc show ?thesis by (simp add: rounds_snoc attempts_append)
  next
    case False
    then show ?thesis by (simp add: rounds_def)
  qed
qed

text \<open>
  The shape of every run that enters the loop at iteration \<open>a\<close>: some number of rounds
  that fail with a retryable error, each followed by its delay, then one last call, at an
  iteration \<open>n\<close> within the bound, whose outcome is the result; the last call succeeded,
  or failed with an error that is not retryable, or was the last one allowed.
\<close>

lemma retry_loop_shape:
  "int a \<le> m \<Longrightarrow>
   \<exists>n. a \<le> n \<and> int n \<le> m \<and>
       (\<forall>k. a \<le> k \<and> k < n \<longrightarrow> (\<exists>e. fn k = Inl e \<and> retryable e)) \<and>
       snd (retry_loop fn m d a le tr) = tr @ rounds d a n @ [Attempt n] \<and>
       fst (retry_loop fn m d a le tr) =
         (case fn n of Inr v \<Rightarrow> Inr v | Inl e \<Rightarrow> Inl (Thrown e)) \<and>
       (case fn n of Inr v \<Rightarrow> True | Inl e \<Rightarrow> \<not> retryable e \<or> int n = m)"
proof (induction fn m d a le tr rule: retry_loop.induct)
  case (1 fn m d a le tr)
  show ?case
  proof (cases "fn a")
    case (Inr v)
    with "1.prems" show ?thesis
      by (intro exI [of _ a]) (auto simp add: retry_loop.simps [of fn m d a] rounds_def)
  next
    case (Inl e)
    show ?thesis
    proof (cases "retryable e \<and> int a < m")
      case False
      with Inl "1.prems" show ?thesis
        by (intro exI [of _ a]) (auto simp add: retry_loop.simps [of fn m d a] rounds_def)
    next
      case True
      then have le': "int (a + 1) \<le> m" by simp
      from "1.IH" [OF "1.prems" Inl True le']
      obtain n where n: "a + 1 \<le> n" "int n \<le> m"
        "\<forall>k. a + 1 \<le> k \<and> k < n \<longrightarrow> (\<exists>e. fn k = Inl e \<and> retryable e)"
        "snd (retry_loop fn m d (a + 1) (Thrown e) (tr @ [Attempt a, Sleep (d * 2 ^ a)]))
           = (tr @ [Attempt a, Sleep (d * 2 ^ a)]) @ rounds d (a + 1) n @ [Attempt n]"
        "fst (retry_loop fn m d (a + 1) (Thrown e) (tr @ [Attempt a, Sleep (d * 2 ^ a)]))
           = (case fn n of Inr v \<Rightarrow> Inr v | Inl e \<Rightarrow> Inl (Thrown e))"
        "(case fn n of Inr v \<Rightarrow> True | Inl e \<Rightarrow> \<not> retryable e \<or> int n = m)"
        by blast
      have step: "retry_loop fn m d a le tr =
          retry_loop fn m d (a + 1) (Thrown e) (tr @ [Attempt a, Sleep (d * 2 ^ a)])"
        using True Inl "1.prems" by (simp add: retry_loop.simps [of fn m d a])
      have an: "a < n" using n(1) by simp
      have pre: "\<forall>k. a \<le> k \<and> k < n \<longrightarrow> (\<exists>e. fn k = Inl e \<and> retryable e)"
      proof (intro allI impI)
        fix k assume k: "a \<le> k \<and> k < n"
        show "\<exists>e. fn k = Inl e \<and> retryable e"
        proof (cases "k = a")
          case True
          with Inl \<open>retryable e \<and> int a < m\<close> show ?thesis by simp
        next
          case False
          with k n(3) show ?thesis by simp
        qed
      qed
      show ?thesis
        apply (rule exI [of _ n])
        using an n(2) pre n(4) n(5) n(6)
        by (simp add: step rounds_step [OF an])
    qed
  qed
qed

lemma retryWithBackoff_shape:
  assumes "0 \<le> m"
  shows "\<exists>n. int n \<le> m \<and>
       (\<forall>k<n. \<exists>e. fn k = Inl e \<and> retryable e) \<and>
       snd (retryWithBackoff fn m d) = rounds d 0 n @ [Attempt n] \<and>
       fst (retryWithBackoff fn m d) =
         (case fn n of Inr v \<Rightarrow> Inr v | Inl e \<Rightarrow> Inl (Thrown e)) \<and>
       (case fn n of Inr v \<Rightarrow> True | Inl e \<Rightarrow> \<not> retryable e \<or> int n = m)"
proof -
  from assms have "int 0 \<le> m" by simp
  from retry_loop_shape [OF this, of fn d Undefined "[]"]
  show ?thesis by (simp add: retryWithBackoff_def)
qed

text \<open>The run stops at the first call that succeeds, fails for good, or is the last.\<close>

lemma retryWithBackoff_stop:
  assumes k: "int k \<le> m"
    and pre: "\<forall>j<k. \<exists>e. fn j = Inl e \<and> retryable e"
    and stop: "case fn k of Inr v \<Rightarrow> True | Inl e \<Rightarrow> \<not> retryable e \<or> int k = m"
  shows "snd (retryWithBackoff fn m d) = rounds d 0 k @ [Attempt k] \<and>
         fst (retryWithBackoff fn m d) =
           (case fn k of Inr v \<Rightarrow> Inr v | Inl e \<Rightarrow> Inl (Thrown e))"
proof -
  from k have "0 \<le> m" by simp
  from retryWithBackoff_shape [OF this, of fn d]
  obtain n where n: "int n \<le> m" "\<forall>k<n. \<exists>e. fn k = Inl e \<and> retryable e"
    "snd (retryWithBackoff fn m d) = rounds d 0 n @ [Attempt n]"
    "fst (retryWithBackoff fn m d) = (case fn n of Inr v \<Rightarrow> Inr v | Inl e \<Rightarrow> Inl (Thrown e))"
    "case fn n of Inr v \<Rightarrow> True | Inl e \<Rightarrow> \<not> retryable e \<or> int n = m"
    by blast
  have "\<not> n < k"
  proof
    assume "n < k"
    with pre obtain e where "fn n = Inl e" "retryable e" by blast
    with n(5) have "int n = m" by simp
    with \<open>n < k\<close> k show False by simp
  qed
  moreover have "\<not> k < n"
  proof
    assume "k < n"
    with n(2) obtain e where "fn k = Inl e" "retryable e" by blast
    with stop have "int k = m" by simp
    with \<open>k < n\<close> n(1) show False by simp
  qed
  ultimately have "n = k" by simp
  with n(3) n(4) show ?thesis by simp
qed

text \<open>A retryable failure before the last allowed call is followed by another call.\<close>

lemma retryWithBackoff_continue:
  assumes k: "int k < m"
    and pre: "\<forall>j<k. \<exists>e. fn j = Inl e \<and> retryable e"
    and here: "fn k = Inl e" "retryable e"
  shows "\<exists>n. k < n \<and> snd (retryWithBackoff fn m d) = rounds d 0 n @ [Attempt n]"
proof -
  from k have "0 \<le> m" by simp
  from retryWithBackoff_shape [OF this, of fn d]
  obtain n where n: "int n \<le> m" "\<forall>k<n. \<exists>e. fn k = Inl e \<and> retryable e"
    "snd (retryWithBackoff fn m d) = rounds d 0 n @ [Attempt n]"
    "case fn n of Inr v \<Rightarrow> True | Inl e \<Rightarrow> \<not> retryable e \<or> int n = m"
    by blast
  have "\<not> n < k"
  proof
    assume "n < k"
    with pre obtain e where "fn n = Inl e" "retryable e" by blast
    with n(4) have "int n = m" by simp
    with \<open>n < k\<close> k show False by simp
  qed
  moreover have "n \<noteq> k"
  proof
    assume "n = k"
    with n(4) here have "int k = m" by simp
    with k show False by simp
  qed
  ultimately have "k < n" by simp
  with n(3) show ?thesis by blast
qed

text \<open>
  C2. Let the calls before call \<open>k\<close> of the operation fail with transient errors (status
  429, error code 20003, or status 500 to 599, where the status is \<open>error.status || error.code\<close>
  as on line 204), let \<open>k\<close> be within \<open>maxRetries\<close>, and let call \<open>k\<close> fail with the error
  \<open>e\<close>. If \<open>e\<close> is permanent (none of the three conditions), \<open>retryWithBackoff\<close> throws \<open>e\<close>
  and call \<open>k\<close> is the last call: there is no retry. If \<open>e\<close> is transient and fewer than
  \<open>maxRetries\<close> retries were made, the operation is called again. If \<open>e\<close> is transient
  and \<open>maxRetries\<close> retries were made, \<open>e\<close>, the last error, is thrown after
  \<open>maxRetries + 1\<close> calls. In every case at most \<open>maxRetries\<close> retries are made.
\<close>

theorem retryWithBackoff_policy:
  assumes "int k \<le> maxRetries"
    and "\<forall>j<k. \<exists>e'. fn j = Inl e' \<and>
           (status_of e' = Some 429 \<or> code e' = Some 20003 \<or>
            (\<exists>n. status_of e' = Some n \<and> 500 \<le> n \<and> n < 600))"
    and "fn k = Inl e"
  shows "(status_of e \<noteq> Some 429 \<and> code e \<noteq> Some 20003 \<and>
          \<not> (\<exists>n. status_of e = Some n \<and> 500 \<le> n \<and> n < 600) \<longrightarrow>
            fst (retryWithBackoff fn maxRetries initialDelayMs) = Inl (Thrown e) \<and>
            attempts (snd (retryWithBackoff fn maxRetries initialDelayMs)) = [0..<k + 1]) \<and>
         ((status_of e = Some 429 \<or> code e = Some 20003 \<or>
           (\<exists>n. status_of e = Some n \<and> 500 \<le> n \<and> n < 600)) \<and> int k < maxRetries \<longrightarrow>
            k + 1 \<in> set (attempts (snd (retryWithBackoff fn maxRetries initialDelayMs)))) \<and>
         ((status_of e = Some 429 \<or> code e = Some 20003 \<or>
           (\<exists>n. status_of e = Some n \<and> 500 \<le> n \<and> n < 600)) \<and> int k = maxRetries \<longrightarrow>
            fst (retryWithBackoff fn maxRetries initialDelayMs) = Inl (Thrown e) \<and>
            attempts (snd (retryWithBackoff fn maxRetries initialDelayMs)) = [0..<k + 1]) \<and>
         int (length (sleeps (snd (retryWithBackoff fn maxRetries initialDelayMs)))) \<le> maxRetries"
proof -
  let ?R = "retryWithBackoff fn maxRetries initialDelayMs"
  from assms(2) have pre: "\<forall>j<k. \<exists>e'. fn j = Inl e' \<and> retryable e'"
    by (simp add: retryable_iff)
  have stopped: "fst ?R = Inl (Thrown e) \<and> attempts (snd ?R) = [0..<k + 1]"
    if "\<not> retryable e \<or> int k = maxRetries"
  proof -
    from that assms(3)
    have "case fn k of Inr v \<Rightarrow> True | Inl e \<Rightarrow> \<not> retryable e \<or> int k = maxRetries"
      by simp
    from retryWithBackoff_stop [OF assms(1) pre this, of initialDelayMs] assms(3)
    show ?thesis by (simp add: attempts_append attempts_rounds)
  qed
  have c1: "\<not> retryable e \<longrightarrow> fst ?R = Inl (Thrown e) \<and> attempts (snd ?R) = [0..<k + 1]"
    using stopped by blast
  have c3: "retryable e \<and> int k = maxRetries \<longrightarrow>
      fst ?R = Inl (Thrown e) \<and> attempts (snd ?R) = [0..<k + 1]"
    using stopped by blast
  have c2: "retryable e \<and> int k < maxRetries \<longrightarrow> k + 1 \<in> set (attempts (snd ?R))"
  proof
    assume a: "retryable e \<and> int k < maxRetries"
    then have "int k < maxRetries" "retryable e" by simp_all
    from retryWithBackoff_continue [OF this(1) pre assms(3) this(2), of initialDelayMs]
    obtain n where n: "k < n" "snd ?R = rounds initialDelayMs 0 n @ [Attempt n]" by blast
    then have "attempts (snd ?R) = [0..<n] @ [n]"
      by (simp add: attempts_append attempts_rounds)
    with n(1) show "k + 1 \<in> set (attempts (snd ?R))"
      by (cases "k + 1 = n") simp_all
  qed
  have c4: "int (length (sleeps (snd ?R))) \<le> maxRetries"
  proof -
    from assms(1) have "0 \<le> maxRetries" by simp
    from retryWithBackoff_shape [OF this, of fn initialDelayMs]
    obtain n where "int n \<le> maxRetries" "snd ?R = rounds initialDelayMs 0 n @ [Attempt n]"
      by blast
    then show ?thesis by (simp add: sleeps_append sleeps_rounds)
  qed
  from c1 c2 c3 c4 show ?thesis
    unfolding retryable_iff by blast
qed

theorem retryWithBackoff_policy_witness:
  "fst (retryWithBackoff fn_then_invalid 3 1000) = Inl (Thrown invalid_to) \<and>
   attempts (snd (retryWithBackoff fn_then_invalid 3 1000)) = [0..<3] \<and>
   fst (retryWithBackoff fn_unavailable 3 1000) = Inl (Thrown unavailable) \<and>
   attempts (snd (retryWithBackoff fn_unavailable 3 1000)) = [0..<4] \<and>
   Suc 0 \<in> set (attempts (snd (retryWithBackoff fn_unavailable 3 1000)))"
proof -
  have st: "status_of unavailable = Some 503" "status_of invalid_to = Some 400"
    "code invalid_to = Some 21211"
    by (simp_all add: status_of_def js_or_def unavailable_def invalid_to_def)
  have p2: "\<forall>j<2. \<exists>e'. fn_then_invalid j = Inl e' \<and>
           (status_of e' = Some 429 \<or> code e' = Some 20003 \<or>
            (\<exists>n. status_of e' = Some n \<and> 500 \<le> n \<and> n < 600))"
    by (simp add: fn_then_invalid_def st)
  have p3: "\<forall>j<3. \<exists>e'. fn_unavailable j = Inl e' \<and>
           (status_of e' = Some 429 \<or> code e' = Some 20003 \<or>
            (\<exists>n. status_of e' = Some n \<and> 500 \<le> n \<and> n < 600))"
    by (simp add: fn_unavailable_def st)
  have p0: "\<forall>j<0. \<exists>e'. fn_unavailable j = Inl e' \<and>
           (status_of e' = Some 429 \<or> code e' = Some 20003 \<or>
            (\<exists>n. status_of e' = Some n \<and> 500 \<le> n \<and> n < 600))"
    by simp
  have k2: "int 2 \<le> 3" and k3: "int 3 \<le> 3" and k0: "int 0 \<le> 3" by simp_all
  have f2: "fn_then_invalid 2 = Inl invalid_to" by (simp add: fn_then_invalid_def)
  have f3: "fn_unavailable 3 = Inl unavailable" by (simp add: fn_unavailable_def)
  have f0: "fn_unavailable 0 = Inl unavailable" by (simp add: fn_unavailable_def)
  from retryWithBackoff_policy [OF k2 p2 f2, of 1000] st
  have a: "fst (retryWithBackoff fn_then_invalid 3 1000) = Inl (Thrown invalid_to) \<and>
     attempts (snd (retryWithBackoff fn_then_invalid 3 1000)) = [0..<3]"
    by simp
  from retryWithBackoff_policy [OF k3 p3 f3, of 1000] st
  have b: "fst (retryWithBackoff fn_unavailable 3 1000) = Inl (Thrown unavailable) \<and>
     attempts (snd (retryWithBackoff fn_unavailable 3 1000)) = [0..<4]"
    by simp
  from retryWithBackoff_policy [OF k0 p0 f0, of 1000] st
  have c: "Suc 0 \<in> set (attempts (snd (retryWithBackoff fn_unavailable 3 1000)))"
    by simp
  from a b c show ?thesis by blast
qed



section \<open>The gateway functions\<close>

lemma getConfig_Some:
  assumes "TWILIO_ACCOUNT_SID e = Some a" "a \<noteq> []" "TWILIO_AUTH_TOKEN e = Some t" "t \<noteq> []"
    "TWILIO_WHATSAPP_NUMBER e = Some w" "w \<noteq> []"
  shows "getConfig e = Some \<lparr>accountSid = a, authToken = t, whatsappNumber = w\<rparr>"
  using assms by (simp add: getConfig_def)

lemma getTwilioClient_accepted:
  assumes "getConfig e = Some \<lparr>accountSid = a, authToken = t, whatsappNumber = w\<rparr>"
    and "a \<noteq> []" "t \<noteq> []" "startsWith ''AC'' a"
  shows "getTwilioClient e = Inr (Some \<lparr>username = a, password = t\<rparr>)"
  using assms by (simp add: getTwilioClient_def twilio_def)

lemma getTwilioClient_rejected:
  assumes "getConfig e = Some \<lparr>accountSid = a, authToken = t, whatsappNumber = w\<rparr>"
    and "a \<noteq> []" "t \<noteq> []" "\<not> startsWith ''AC'' a"
  shows "\<exists>err. twilio a t = Inl err \<and> getTwilioClient e = Inl err"
  using assms by (simp add: getTwilioClient_def twilio_def)

lemma parseInt_0: "parseInt ''0'' = Num 0"
  by code_simp

text \<open>
  C5 does not hold of \<open>sendTextMessageWithRetry\<close>. When the three credentials are set and
  the account SID does not start with \<open>AC\<close>, the constructor of the client throws before
  the \<open>try\<close> block is entered: for every recipient and every message the function throws
  that error to its caller instead of returning \<open>false\<close>, and \<open>client.messages.create\<close> is
  never called.
\<close>

theorem sendTextMessageWithRetry_throws:
  assumes "TWILIO_ACCOUNT_SID e = Some a" "a \<noteq> []" "take 2 a \<noteq> ''AC''"
    "TWILIO_AUTH_TOKEN e = Some t" "t \<noteq> []"
    "TWILIO_WHATSAPP_NUMBER e = Some w" "w \<noteq> []"
  shows "\<exists>err. twilio a t = Inl err \<and>
     sendTextMessageWithRetry e create recipientNumber messageText = (Inl (Thrown err), [])"
proof -
  from getConfig_Some [OF assms(1,2,4,5,6,7)]
  have cfg: "getConfig e = Some \<lparr>accountSid = a, authToken = t, whatsappNumber = w\<rparr>" .
  from assms(3) have "\<not> startsWith ''AC'' a"
    by (simp add: startsWith_def numeral_2_eq_2)
  from getTwilioClient_rejected [OF cfg assms(2) assms(5) this]
  obtain err where "twilio a t = Inl err" "getTwilioClient e = Inl err" by blast
  then show ?thesis by (simp add: sendTextMessageWithRetry_def)
qed

theorem sendTextMessageWithRetry_throws_witness:
  "sendTextMessageWithRetry env_rejected_sid create_unavailable ''919876543210'' ''hello'' =
     (Inl (Thrown \<lparr>status = None, code = None, message = ''accountSid must start with AC''\<rparr>),
      [])"
proof -
  have e: "TWILIO_ACCOUNT_SID env_rejected_sid = Some ''XX1''" "''XX1'' \<noteq> []"
    "take 2 ''XX1'' \<noteq> ''AC''"
    "TWILIO_AUTH_TOKEN env_rejected_sid = Some ''secret''" "''secret'' \<noteq> []"
    "TWILIO_WHATSAPP_NUMBER env_rejected_sid = Some ''+14155238886''" "''+14155238886'' \<noteq> []"
    by (simp_all add: env_rejected_sid_def)
  have c: "twilio ''XX1'' ''secret'' =
      Inl \<lparr>status = None, code = None, message = ''accountSid must start with AC''\<rparr>"
    by (simp add: twilio_def startsWith_def)
  show ?thesis
    using sendTextMessageWithRetry_throws [OF e, of create_unavailable "''919876543210''" "''hello''"]
    by (simp add: c)
qed

text \<open>
  C7 does not hold in every environment. For a recipient that fails \<open>validateE164\<close>, that
  is, a string that is not 10 to 15 ASCII digits, \<open>sendTextMessageWithRetry\<close> never calls
  \<open>client.messages.create\<close> and never sleeps. It returns \<open>false\<close> when \<open>getTwilioClient\<close>
  returns, and when \<open>getTwilioClient\<close> throws (line 961, before the recipient is validated on
  line 964) it throws that error to its caller.
\<close>

theorem malformed_recipient_outcome:
  "\<not> (10 \<le> length recipientNumber \<and> length recipientNumber \<le> 15 \<and>
       (\<forall>c \<in> set recipientNumber. c \<in> set ''0123456789'')) \<longrightarrow>
   sendTextMessageWithRetry e create recipientNumber messageText =
     (case getTwilioClient e of
        Inl error \<Rightarrow> (Inl (Thrown error), [])
      | Inr client \<Rightarrow> (Inr False, []))"
proof
  assume "\<not> (10 \<le> length recipientNumber \<and> length recipientNumber \<le> 15 \<and>
       (\<forall>c \<in> set recipientNumber. c \<in> set ''0123456789''))"
  then have "\<not> validateE164 recipientNumber"
    by (simp only: validateE164_iff not_False_eq_True)
  then show "sendTextMessageWithRetry e create recipientNumber messageText =
     (case getTwilioClient e of
        Inl error \<Rightarrow> (Inl (Thrown error), [])
      | Inr client \<Rightarrow> (Inr False, []))"
    by (simp add: sendTextMessageWithRetry_def split: sum.splits option.splits)
qed

theorem malformed_recipient_outcome_witness:
  "sendTextMessageWithRetry env_rejected_sid create_unavailable ''+919876543210'' ''hello'' =
     (Inl (Thrown \<lparr>status = None, code = None, message = ''accountSid must start with AC''\<rparr>),
      []) \<and>
   sendTextMessageWithRetry env_demo create_unavailable ''+919876543210'' ''hello'' =
     (Inr False, [])"
proof -
  have bad: "getTwilioClient env_rejected_sid =
      Inl \<lparr>status = None, code = None, message = ''accountSid must start with AC''\<rparr>"
    by (simp add: getTwilioClient_def getConfig_def twilio_def startsWith_def
        env_rejected_sid_def)
  have good: "getTwilioClient env_demo = Inr (Some \<lparr>username = ''AC1'', password = ''secret''\<rparr>)"
    by (simp add: getTwilioClient_def getConfig_def twilio_def startsWith_def env_demo_def)
  show ?thesis
    using malformed_recipient_outcome
            [of "''+919876543210''" env_rejected_sid create_unavailable "''hello''"]
          malformed_recipient_outcome
            [of "''+919876543210''" env_demo create_unavailable "''hello''"]
    by (simp add: bad good)
qed

text \<open>
  C10. When the three credentials are set and not empty, \<open>downloadVoiceNoteMedia\<close> returns
  a result that is not \<open>null\<close> and throws nothing. When the URL does not have the expected
  form, or the fetch of the media metadata fails with any error, the result is the original
  URL with mime type \<open>audio/ogg\<close>, an empty \<open>sha256\<close> and \<open>fileSize\<close> 0; a fetch that
  succeeds with a media resource without content type and content length gives the very
  same result, so the caller cannot tell the failure from that success.
\<close>

theorem downloadVoiceNoteMedia_fallback:
  assumes "TWILIO_ACCOUNT_SID e = Some a" "a \<noteq> []" "TWILIO_AUTH_TOKEN e = Some t" "t \<noteq> []"
    "TWILIO_WHATSAPP_NUMBER e = Some w" "w \<noteq> []"
  shows "(\<exists>r. downloadVoiceNoteMedia e fetch mediaUrl = Inr (Some r)) \<and>
         ((\<forall>mediaSid messageSid.
              matchMediaSid mediaUrl = Some mediaSid \<and>
              matchMessageSid mediaUrl = Some messageSid \<longrightarrow>
              (\<exists>err. fetch \<lparr>username = a, password = t\<rparr> messageSid mediaSid = Inl err)) \<longrightarrow>
            downloadVoiceNoteMedia e fetch mediaUrl =
              Inr (Some \<lparr>url = mediaUrl, mimeType = ''audio/ogg'', sha256 = '''',
                 fileSize = Num 0\<rparr>)) \<and>
         downloadVoiceNoteMedia e
            (\<lambda>c messageSid mediaSid.
               Inr \<lparr>contentType = None, contentLength = None, uri = mediaUrl\<rparr>)
            mediaUrl =
              Inr (Some \<lparr>url = mediaUrl, mimeType = ''audio/ogg'', sha256 = '''',
                 fileSize = Num 0\<rparr>)"
proof -
  from getConfig_Some [OF assms]
  have cfg: "getConfig e = Some \<lparr>accountSid = a, authToken = t, whatsappNumber = w\<rparr>" .
  show ?thesis
  proof (cases "startsWith ''AC'' a")
    case True
    from getTwilioClient_accepted [OF cfg assms(2) assms(4) True]
    have cl: "getTwilioClient e = Inr (Some \<lparr>username = a, password = t\<rparr>)" .
    have c1: "\<exists>r. downloadVoiceNoteMedia e fetch mediaUrl = Inr (Some r)"
      by (simp add: downloadVoiceNoteMedia_def cfg cl split: option.splits sum.splits)
    have c2: "downloadVoiceNoteMedia e fetch mediaUrl =
        Inr (Some \<lparr>url = mediaUrl, mimeType = ''audio/ogg'', sha256 = '''', fileSize = Num 0\<rparr>)"
      if "\<forall>mediaSid messageSid.
            matchMediaSid mediaUrl = Some mediaSid \<and>
            matchMessageSid mediaUrl = Some messageSid \<longrightarrow>
            (\<exists>err. fetch \<lparr>username = a, password = t\<rparr> messageSid mediaSid = Inl err)"
      using that
      by (auto simp add: downloadVoiceNoteMedia_def cfg cl split: option.splits sum.splits)
    have c3: "downloadVoiceNoteMedia e
        (\<lambda>c messageSid mediaSid. Inr \<lparr>contentType = None, contentLength = None, uri = mediaUrl\<rparr>)
        mediaUrl =
        Inr (Some \<lparr>url = mediaUrl, mimeType = ''audio/ogg'', sha256 = '''', fileSize = Num 0\<rparr>)"
      by (simp add: downloadVoiceNoteMedia_def cfg cl or_default_def parseInt_0
          split: option.splits)
    from c1 c2 c3 show ?thesis by blast
  next
    case False
    from getTwilioClient_rejected [OF cfg assms(2) assms(4) False]
    obtain err where cl: "getTwilioClient e = Inl err" by blast
    have "downloadVoiceNoteMedia e f mediaUrl =
        Inr (Some \<lparr>url = mediaUrl, mimeType = ''audio/ogg'', sha256 = '''', fileSize = Num 0\<rparr>)"
      for f
      by (simp add: downloadVoiceNoteMedia_def cfg cl)
    then show ?thesis by simp
  qed
qed

theorem downloadVoiceNoteMedia_fallback_witness:
  "downloadVoiceNoteMedia env_demo fetch_not_found url_demo =
     Inr (Some \<lparr>url = url_demo, mimeType = ''audio/ogg'', sha256 = '''', fileSize = Num 0\<rparr>) \<and>
   downloadVoiceNoteMedia env_demo fetch_not_found ''https://example.org/a.ogg'' =
     Inr (Some \<lparr>url = ''https://example.org/a.ogg'', mimeType = ''audio/ogg'', sha256 = '''',
       fileSize = Num 0\<rparr>)"
proof -
  have e: "TWILIO_ACCOUNT_SID env_demo = Some ''AC1''" "''AC1'' \<noteq> []"
    "TWILIO_AUTH_TOKEN env_demo = Some ''secret''" "''secret'' \<noteq> []"
    "TWILIO_WHATSAPP_NUMBER env_demo = Some ''+14155238886''" "''+14155238886'' \<noteq> []"
    by (simp_all add: env_demo_def)
  show ?thesis
    using downloadVoiceNoteMedia_fallback [OF e, of fetch_not_found url_demo]
          downloadVoiceNoteMedia_fallback [OF e, of fetch_not_found "''https://example.org/a.ogg''"]
    by (simp add: fetch_not_found_def)
qed

text \<open>
  C4, as stated, fails. With valid credentials, a well-formed media URL and a metadata
  fetch that succeeds, the \<open>sha256\<close> field of the result is the empty string, which is
  not the SHA-256 of any content (a SHA-256 digest in hexadecimal has 64 characters, the
  width of the column \<open>media_sha256\<close>); the size reported is the content length of the
  metadata.
\<close>

theorem downloadVoiceNoteMedia_sha256_counterexample:
  "map_option sha256 (projr (downloadVoiceNoteMedia env_demo fetch_ok url_demo)) = Some '''' \<and>
   map_option (length \<circ> sha256) (projr (downloadVoiceNoteMedia env_demo fetch_ok url_demo))
     \<noteq> Some 64 \<and>
   map_option fileSize (projr (downloadVoiceNoteMedia env_demo fetch_ok url_demo))
     = Some (Num 5120)"
  by code_simp

text \<open>
  C4, amended. \<open>downloadVoiceNoteMedia\<close> neither downloads nor hashes the media. For every
  environment, every media URL and every outcome of the metadata fetch, in both revisions
  of the function, the \<open>sha256\<close> field of a result is the empty string, and \<open>fileSize\<close> is
  either 0 or what \<open>parseInt\<close> makes of the \<open>contentLength\<close> of the media resource that the
  fetch for the identifiers in the URL returned (of \<open>"0"\<close> when that field is absent or
  empty).
\<close>

theorem downloadVoiceNoteMedia_no_hash:
  "(downloadVoiceNoteMedia e fetch mediaUrl = Inr (Some r) \<longrightarrow>
      sha256 r = '''' \<and>
      (fileSize r = Num 0 \<or>
       (\<exists>c mediaSid messageSid m.
          matchMediaSid mediaUrl = Some mediaSid \<and>
          matchMessageSid mediaUrl = Some messageSid \<and>
          fetch c messageSid mediaSid = Inr m \<and>
          fileSize r = parseInt (or_default (contentLength m) ''0'')))) \<and>
   (downloadVoiceNoteMedia_rev1 e fetch mediaUrl = Inr (Some r') \<longrightarrow>
      sha256 r' = '''' \<and>
      (fileSize r' = Num 0 \<or>
       (\<exists>c mediaSid m.
          matchMediaSid_rev1 mediaUrl = Some mediaSid \<and>
          fetch c mediaSid mediaSid = Inr m \<and>
          fileSize r' = parseInt (or_default (contentLength m) ''0''))))"
proof (intro conjI impI)
  assume a: "downloadVoiceNoteMedia e fetch mediaUrl = Inr (Some r)"
  then show "sha256 r = ''''"
    by (auto simp add: downloadVoiceNoteMedia_def
        split: option.splits sum.splits thrown.splits)
  from a show "fileSize r = Num 0 \<or>
       (\<exists>c mediaSid messageSid m.
          matchMediaSid mediaUrl = Some mediaSid \<and>
          matchMessageSid mediaUrl = Some messageSid \<and>
          fetch c messageSid mediaSid = Inr m \<and>
          fileSize r = parseInt (or_default (contentLength m) ''0''))"
    by (auto simp add: downloadVoiceNoteMedia_def
        split: option.splits sum.splits thrown.splits) blast+
next
  assume a: "downloadVoiceNoteMedia_rev1 e fetch mediaUrl = Inr (Some r')"
  then show "sha256 r' = ''''"
    by (auto simp add: downloadVoiceNoteMedia_rev1_def
        split: option.splits sum.splits thrown.splits)
  from a show "fileSize r' = Num 0 \<or>
       (\<exists>c mediaSid m.
          matchMediaSid_rev1 mediaUrl = Some mediaSid \<and>
          fetch c mediaSid mediaSid = Inr m \<and>
          fileSize r' = parseInt (or_default (contentLength m) ''0''))"
    by (auto simp add: downloadVoiceNoteMedia_rev1_def
        split: option.splits sum.splits thrown.splits) blast+
qed

theorem downloadVoiceNoteMedia_no_hash_witness:
  "downloadVoiceNoteMedia env_demo fetch_ok url_demo =
     Inr (Some \<lparr>url = url_demo, mimeType = ''audio/ogg'', sha256 = '''',
       fileSize = Num 5120\<rparr>) \<and>
   downloadVoiceNoteMedia_rev1 env_demo fetch_ok url_demo =
     Inr (Some \<lparr>url = ''/2010-04-01/Accounts/AC1/Messages/MM2/Media/ME3'',
       mimeType = ''audio/ogg'', sha256 = '''', fileSize = Num 5120\<rparr>) \<and>
   parseInt ''5120'' = Num 5120"
proof -
  have ev: "downloadVoiceNoteMedia env_demo fetch_ok url_demo =
     Inr (Some \<lparr>url = url_demo, mimeType = ''audio/ogg'', sha256 = '''',
       fileSize = Num 5120\<rparr>)"
    by code_simp
  have ev1: "downloadVoiceNoteMedia_rev1 env_demo fetch_ok url_demo =
     Inr (Some \<lparr>url = ''/2010-04-01/Accounts/AC1/Messages/MM2/Media/ME3'',
       mimeType = ''audio/ogg'', sha256 = '''', fileSize = Num 5120\<rparr>)"
    by code_simp
  have p: "parseInt ''5120'' = Num 5120"
    by code_simp
  from downloadVoiceNoteMedia_no_hash [of env_demo fetch_ok url_demo
      "\<lparr>url = url_demo, mimeType = ''audio/ogg'', sha256 = '''', fileSize = Num 5120\<rparr>"
      "\<lparr>url = ''/2010-04-01/Accounts/AC1/Messages/MM2/Media/ME3'',
        mimeType = ''audio/ogg'', sha256 = '''', fileSize = Num 5120\<rparr>"] ev ev1 p
  show ?thesis by simp
qed

section \<open>The persisted schema: uniqueness and defaults\<close>

lemma and_then_Inr: "and_then m f = Inr y \<longleftrightarrow> (\<exists>a. m = Inr a \<and> f a = Inr y)"
  by (cases m) (simp_all add: and_then_def)

lemma insert_voice_note_Inr:
  "insert_voice_note now d v = Inr d' \<longleftrightarrow>
     (\<exists>row. voice_notes_row now v = Inr row \<and>
        vn_id row \<notin> set (map vn_id (voice_notes d)) \<and>
        (free_trial_id row, question_index row)
           \<notin> set (map (\<lambda>r. (free_trial_id r, question_index r)) (voice_notes d)) \<and>
        free_trial_id row \<in> set (map ft_id (free_trials d)) \<and>
        d' = d\<lparr>voice_notes := voice_notes d @ [row]\<rparr>)"
  unfolding insert_voice_note_def and_then_Inr
  by (auto split: if_splits)

lemma insert_free_trial_Inr:
  "insert_free_trial now d v = Inr d' \<longleftrightarrow>
     (\<exists>row. free_trials_row now v = Inr row \<and>
        ft_id row \<notin> set (map ft_id (free_trials d)) \<and>
        d' = d\<lparr>free_trials := free_trials d @ [row]\<rparr>)"
  unfolding insert_free_trial_def and_then_Inr
  by (auto split: if_splits)


lemma distinct_replace:
  "distinct (map vn_id xs) \<Longrightarrow> distinct (map f xs) \<Longrightarrow>
   f row \<notin> set (map f (filter (\<lambda>r. vn_id r \<noteq> i) xs)) \<Longrightarrow>
   distinct (map f (map (\<lambda>r. if vn_id r = i then row else r) xs))"
proof (induction xs)
  case Nil
  show ?case by simp
next
  case (Cons x xs)
  show ?case
  proof (cases "vn_id x = i")
    case True
    with Cons.prems(1) have no: "\<forall>r \<in> set xs. vn_id r \<noteq> i"
      by (simp add: image_iff) blast
    then have same: "map (\<lambda>r. if vn_id r = i then row else r) xs = xs"
      by (induction xs) simp_all
    from no have "filter (\<lambda>r. vn_id r \<noteq> i) xs = xs" by simp
    with Cons.prems(3) True have "f row \<notin> set (map f xs)" by simp
    with Cons.prems(2) True same show ?thesis by simp
  next
    case False
    from Cons.prems False have ih: "distinct (map f (map (\<lambda>r. if vn_id r = i then row else r) xs))"
      by (intro Cons.IH) simp_all
    from Cons.prems(3) False have ne: "f row \<noteq> f x" by simp
    from Cons.prems(2) have "f x \<notin> f ` set xs" by simp
    with ne have "f x \<notin> set (map f (map (\<lambda>r. if vn_id r = i then row else r) xs))"
      by (auto split: if_splits)
    with ih False show ?thesis by simp
  qed
qed

lemma update_voice_note_unique:
  assumes "voice_notes_unique d" and "update_voice_note d i v = Inr d'"
  shows "voice_notes_unique d'"
proof (cases "filter (\<lambda>r. vn_id r = i) (voice_notes d)")
  case Nil
  with assms show ?thesis by (simp add: update_voice_note_def)
next
  case (Cons old rest)
  with assms(2) obtain row where row:
    "vn_id row \<notin> set (map vn_id (filter (\<lambda>r. vn_id r \<noteq> i) (voice_notes d)))"
    "(free_trial_id row, question_index row) \<notin>
       set (map (\<lambda>r. (free_trial_id r, question_index r)) (filter (\<lambda>r. vn_id r \<noteq> i) (voice_notes d)))"
    "d' = d\<lparr>voice_notes := map (\<lambda>r. if vn_id r = i then row else r) (voice_notes d)\<rparr>"
    by (auto simp add: update_voice_note_def and_then_Inr Let_def split: if_splits)
  from assms(1) have d1: "distinct (map vn_id (voice_notes d))"
    and d2: "distinct (map (\<lambda>r. (free_trial_id r, question_index r)) (voice_notes d))"
    by (simp_all add: voice_notes_unique_def)
  have "distinct (map vn_id (map (\<lambda>r. if vn_id r = i then row else r) (voice_notes d)))"
    using d1 d1 row(1) by (rule distinct_replace)
  moreover have "distinct (map (\<lambda>r. (free_trial_id r, question_index r))
      (map (\<lambda>r. if vn_id r = i then row else r) (voice_notes d)))"
    using d1 d2 row(2) by (rule distinct_replace)
  ultimately show ?thesis
    by (simp add: voice_notes_unique_def row(3))
qed

lemma reachable_unique: "reachable d \<Longrightarrow> voice_notes_unique d"
proof (induction rule: reachable.induct)
  case at_start
  show ?case by (simp add: empty_db_def voice_notes_unique_def)
next
  case (ins_trial d now v d')
  then show ?case by (auto simp add: insert_free_trial_Inr voice_notes_unique_def)
next
  case (ins_note d now v d')
  then show ?case by (auto simp add: insert_voice_note_Inr voice_notes_unique_def)
next
  case (del_trial d i)
  then show ?case by (simp add: delete_free_trial_def voice_notes_unique_def distinct_map_filter)
next
  case (del_note d i)
  then show ?case by (simp add: delete_voice_note_def voice_notes_unique_def distinct_map_filter)
next
  case (upd_note d i v d')
  then show ?case by (simp add: update_voice_note_unique)
qed

lemma distinct_map_count:
  "distinct (map f xs) \<Longrightarrow> length (filter (\<lambda>x. f x = k) xs) \<le> 1"
  by (induction xs) (auto simp add: filter_empty_conv image_iff)

lemma voice_notes_row_replay:
  assumes "voice_notes_row now v = Inr row" and "voice_notes_row now' v = Inr row'"
  shows "vn_id row' = vn_id row \<and> free_trial_id row' = free_trial_id row \<and>
         question_index row' = question_index row"
proof -
  from assms(1) obtain a b c where 1:
    "not_null ''id'' (set_vn_id v) Inr = Inr a"
    "not_null ''free_trial_id'' (set_free_trial_id v) (varchar 255) = Inr b"
    "not_null ''question_index'' (set_question_index v) integer_col = Inr c"
    "vn_id row = a" "free_trial_id row = b" "question_index row = c"
    unfolding voice_notes_row_def and_then_Inr by auto
  from assms(2) obtain a' b' c' where 2:
    "not_null ''id'' (set_vn_id v) Inr = Inr a'"
    "not_null ''free_trial_id'' (set_free_trial_id v) (varchar 255) = Inr b'"
    "not_null ''question_index'' (set_question_index v) integer_col = Inr c'"
    "vn_id row' = a'" "free_trial_id row' = b'" "question_index row' = c'"
    unfolding voice_notes_row_def and_then_Inr by auto
  from 1 2 show ?thesis by simp
qed

lemma not_Inr_is_Inl: "(\<forall>y. m \<noteq> Inr y) \<Longrightarrow> \<exists>e. m = Inl e"
  by (cases m) simp_all

lemma db_one_trial_inserted: "insert_free_trial 100 empty_db trial_demo = Inr db_one_trial"
proof -
  have "\<not> isl (insert_free_trial 100 empty_db trial_demo)" by code_simp
  then show ?thesis by (simp add: db_one_trial_def)
qed

lemma db_demo_inserted: "insert_voice_note 200 db_one_trial note_demo = Inr db_demo"
proof -
  have "\<not> isl (insert_voice_note 200 db_one_trial note_demo)" by code_simp
  then show ?thesis by (simp add: db_demo_def)
qed

lemma reachable_db_one_trial: "reachable db_one_trial"
  using reachable.at_start db_one_trial_inserted by (rule reachable.ins_trial)

lemma reachable_db_demo: "reachable db_demo"
  using reachable_db_one_trial db_demo_inserted by (rule reachable.ins_note)

text \<open>
  C1. In every store that insertions, updates and deletions can build, there is at most
  one \<open>voice_notes\<close> row for each pair \<open>(free_trial_id, question_index)\<close>. An insertion
  whose row falls on a pair that already has a row is rejected, so the store stays as it
  was and the existing row is not overwritten. When an insertion has been accepted, the
  same insertion made again, at any later time, is rejected, and the store holds exactly
  one row for that pair: the one first inserted.
\<close>

theorem voice_notes_one_row_per_slot:
  assumes "reachable d"
  shows "(\<forall>t q. length (filter (\<lambda>r. free_trial_id r = t \<and> question_index r = q) (voice_notes d)) \<le> 1) \<and>
         (\<forall>now v row.
            voice_notes_row now v = Inr row \<and>
            (\<exists>r \<in> set (voice_notes d).
               free_trial_id r = free_trial_id row \<and> question_index r = question_index row)
            \<longrightarrow> (\<exists>e. insert_voice_note now d v = Inl e)) \<and>
         (\<forall>now v d'. insert_voice_note now d v = Inr d' \<longrightarrow>
            (\<forall>now'. \<exists>e. insert_voice_note now' d' v = Inl e) \<and>
            (\<exists>row. voice_notes_row now v = Inr row \<and>
               filter (\<lambda>r. free_trial_id r = free_trial_id row \<and>
                            question_index r = question_index row) (voice_notes d') = [row]))"
proof (intro conjI allI impI)
  fix t q
  from reachable_unique [OF assms]
  have "distinct (map (\<lambda>r. (free_trial_id r, question_index r)) (voice_notes d))"
    by (simp add: voice_notes_unique_def)
  from distinct_map_count [OF this, of "(t, q)"]
  show "length (filter (\<lambda>r. free_trial_id r = t \<and> question_index r = q) (voice_notes d)) \<le> 1"
    by simp
next
  fix now v row
  assume a: "voice_notes_row now v = Inr row \<and>
            (\<exists>r \<in> set (voice_notes d).
               free_trial_id r = free_trial_id row \<and> question_index r = question_index row)"
  then obtain r where r: "r \<in> set (voice_notes d)"
    "free_trial_id r = free_trial_id row" "question_index r = question_index row"
    by blast
  then have filled: "(free_trial_id row, question_index row)
      \<in> set (map (\<lambda>r. (free_trial_id r, question_index r)) (voice_notes d))"
    unfolding set_map by (intro image_eqI [of _ _ r]) simp_all
  have "\<forall>y. insert_voice_note now d v \<noteq> Inr y"
  proof (intro allI notI)
    fix y assume "insert_voice_note now d v = Inr y"
    then obtain row' where row': "voice_notes_row now v = Inr row'"
      "(free_trial_id row', question_index row')
         \<notin> set (map (\<lambda>r. (free_trial_id r, question_index r)) (voice_notes d))"
      unfolding insert_voice_note_Inr by blast
    from a row'(1) have "row' = row" by simp
    with row'(2) filled show False by simp
  qed
  then show "\<exists>e. insert_voice_note now d v = Inl e"
    by (rule not_Inr_is_Inl)
next
  fix now v d' now'
  assume a: "insert_voice_note now d v = Inr d'"
  then obtain row where row: "voice_notes_row now v = Inr row"
    "d' = d\<lparr>voice_notes := voice_notes d @ [row]\<rparr>"
    by (auto simp add: insert_voice_note_Inr)
  have "\<forall>y. insert_voice_note now' d' v \<noteq> Inr y"
  proof (intro allI notI)
    fix y assume "insert_voice_note now' d' v = Inr y"
    then obtain row' where row': "voice_notes_row now' v = Inr row'"
      "vn_id row' \<notin> set (map vn_id (voice_notes d'))"
      by (auto simp add: insert_voice_note_Inr)
    from voice_notes_row_replay [OF row(1) row'(1)] have "vn_id row' = vn_id row" by simp
    with row'(2) row(2) show False by simp
  qed
  then show "\<exists>e. insert_voice_note now' d' v = Inl e"
    by (rule not_Inr_is_Inl)
next
  fix now v d'
  assume a: "insert_voice_note now d v = Inr d'"
  then obtain row where row: "voice_notes_row now v = Inr row"
    "(free_trial_id row, question_index row)
       \<notin> set (map (\<lambda>r. (free_trial_id r, question_index r)) (voice_notes d))"
    "d' = d\<lparr>voice_notes := voice_notes d @ [row]\<rparr>"
    by (auto simp add: insert_voice_note_Inr)
  from row(2) have "filter (\<lambda>r. free_trial_id r = free_trial_id row \<and>
                            question_index r = question_index row) (voice_notes d) = []"
    by (auto simp add: filter_empty_conv image_iff)
  with row(1) row(3)
  show "\<exists>row. voice_notes_row now v = Inr row \<and>
               filter (\<lambda>r. free_trial_id r = free_trial_id row \<and>
                            question_index r = question_index row) (voice_notes d') = [row]"
    by (intro exI [of _ row]) simp
qed

theorem voice_notes_one_row_per_slot_witness:
  "reachable db_one_trial \<and>
   insert_voice_note 200 db_one_trial note_demo = Inr db_demo \<and>
   (\<exists>e. insert_voice_note 300 db_demo note_demo = Inl e) \<and>
   length (filter (\<lambda>r. free_trial_id r = ''trial-1'' \<and> question_index r = 0)
     (voice_notes db_demo)) \<le> 1"
proof -
  from voice_notes_one_row_per_slot [OF reachable_db_one_trial]
  have "\<forall>now v d'. insert_voice_note now db_one_trial v = Inr d' \<longrightarrow>
          (\<forall>now'. \<exists>e. insert_voice_note now' d' v = Inl e)"
    by blast
  with db_demo_inserted have replay: "\<exists>e. insert_voice_note 300 db_demo note_demo = Inl e"
    by blast
  from voice_notes_one_row_per_slot [OF reachable_db_demo]
  have "length (filter (\<lambda>r. free_trial_id r = ''trial-1'' \<and> question_index r = 0)
     (voice_notes db_demo)) \<le> 1"
    by blast
  with replay reachable_db_one_trial db_demo_inserted show ?thesis by blast
qed

text \<open>
  C8. A row inserted into \<open>free_trials\<close> without values for \<open>conversation_state\<close>,
  \<open>current_question_index\<close> and \<open>retry_count\<close> is stored with
  \<open>awaiting_initial_contact\<close>, 0 and 0; a row inserted into \<open>voice_notes\<close> without a value
  for \<open>download_status\<close> is stored with \<open>pending\<close>.
\<close>

theorem rows_start_in_initial_state:
  "(insert_free_trial now d v = Inr d' \<and> set_conversation_state v = None \<and>
    set_current_question_index v = None \<and> set_retry_count v = None \<longrightarrow>
      (\<exists>row. free_trials d' = free_trials d @ [row] \<and>
         conversation_state row = ''awaiting_initial_contact'' \<and>
         current_question_index row = 0 \<and> retry_count row = 0)) \<and>
   (insert_voice_note now2 d2 w = Inr d2' \<and> set_download_status w = None \<longrightarrow>
      (\<exists>row. voice_notes d2' = voice_notes d2 @ [row] \<and> download_status row = ''pending''))"
proof (intro conjI impI)
  assume a: "insert_free_trial now d v = Inr d' \<and> set_conversation_state v = None \<and>
    set_current_question_index v = None \<and> set_retry_count v = None"
  then obtain row where row: "free_trials_row now v = Inr row"
    "d' = d\<lparr>free_trials := free_trials d @ [row]\<rparr>"
    by (auto simp add: insert_free_trial_Inr)
  from row(1) a have "conversation_state row = ''awaiting_initial_contact'' \<and>
         current_question_index row = 0 \<and> retry_count row = 0"
    unfolding free_trials_row_def and_then_Inr
    by (auto simp add: default_to_def)
  with row(2) show "\<exists>row. free_trials d' = free_trials d @ [row] \<and>
         conversation_state row = ''awaiting_initial_contact'' \<and>
         current_question_index row = 0 \<and> retry_count row = 0"
    by (intro exI [of _ row]) simp
next
  assume a: "insert_voice_note now2 d2 w = Inr d2' \<and> set_download_status w = None"
  then obtain row where row: "voice_notes_row now2 w = Inr row"
    "d2' = d2\<lparr>voice_notes := voice_notes d2 @ [row]\<rparr>"
    by (auto simp add: insert_voice_note_Inr)
  from row(1) a have "download_status row = ''pending''"
    unfolding voice_notes_row_def and_then_Inr
    by (auto simp add: default_to_def)
  with row(2) show "\<exists>row. voice_notes d2' = voice_notes d2 @ [row] \<and> download_status row = ''pending''"
    by (intro exI [of _ row]) simp
qed

theorem rows_start_in_initial_state_witness:
  "conversation_state (last (free_trials db_one_trial)) = ''awaiting_initial_contact'' \<and>
   current_question_index (last (free_trials db_one_trial)) = 0 \<and>
   retry_count (last (free_trials db_one_trial)) = 0 \<and>
   download_status (last (voice_notes db_demo)) = ''pending''"
proof -
  have omitted: "set_conversation_state trial_demo = None"
    "set_current_question_index trial_demo = None" "set_retry_count trial_demo = None"
    "set_download_status note_demo = None"
    by (simp_all add: trial_demo_def note_demo_def)
  from rows_start_in_initial_state
    [of 100 empty_db trial_demo db_one_trial 200 db_one_trial note_demo db_demo]
    db_one_trial_inserted db_demo_inserted omitted
  obtain row row' where "free_trials db_one_trial = free_trials empty_db @ [row]"
    "conversation_state row = ''awaiting_initial_contact''"
    "current_question_index row = 0" "retry_count row = 0"
    "voice_notes db_demo = voice_notes db_one_trial @ [row']"
    "download_status row' = ''pending''"
    by blast
  then show ?thesis by simp
qed

end
